theory Spec2Isabelle
  imports Main
begin

section \<open>JavaScript values used by the SDK\<close>

text \<open>
  The SDK is TypeScript. Three operators of the language decide most of what follows:
  \<^item> \<^verbatim>\<open>a || b\<close> yields \<open>a\<close> when \<open>a\<close> is truthy and \<open>b\<close> otherwise; \<^verbatim>\<open>undefined\<close>,
    \<^verbatim>\<open>null\<close>, the empty string, \<^verbatim>\<open>0\<close>, \<^verbatim>\<open>NaN\<close> and \<^verbatim>\<open>false\<close> are falsy;
  \<^item> \<^verbatim>\<open>a ?? b\<close> yields \<open>b\<close> only when \<open>a\<close> is \<^verbatim>\<open>undefined\<close> or \<^verbatim>\<open>null\<close>;
  \<^item> \<^verbatim>\<open>a?.f\<close> yields \<^verbatim>\<open>undefined\<close> when \<open>a\<close> is \<^verbatim>\<open>undefined\<close> or \<^verbatim>\<open>null\<close>.
  An optional property (\<^verbatim>\<open>f?: T\<close>) is a value of type \<open>T option\<close>; \<open>None\<close> is \<^verbatim>\<open>undefined\<close>.
  Values of type \<^verbatim>\<open>number\<close> are modelled as \<open>int\<close>: the code below never computes with
  them, it only tests them for truthiness or passes them on (\<^verbatim>\<open>NaN\<close>, which is falsy like
  \<open>0\<close>, and fractions are outside the model).
\<close>

text \<open>\<^verbatim>\<open>a || b\<close> on optional strings.\<close>

definition truthy_str :: "string option \<Rightarrow> bool" where
  "truthy_str a = (case a of None \<Rightarrow> False | Some s \<Rightarrow> s \<noteq> [])"

definition js_or :: "string option \<Rightarrow> string option \<Rightarrow> string option" where
  "js_or a b = (if truthy_str a then a else b)"

text \<open>\<^verbatim>\<open>a || "literal"\<close>: the right operand is a string, so the result is one.\<close>

definition or_else :: "string option \<Rightarrow> string \<Rightarrow> string" where
  "or_else a d = (case a of None \<Rightarrow> d | Some s \<Rightarrow> if s = [] then d else s)"

text \<open>\<^verbatim>\<open>a ?? d\<close>.\<close>

definition nullish :: "'a option \<Rightarrow> 'a \<Rightarrow> 'a" where
  "nullish a d = (case a of None \<Rightarrow> d | Some v \<Rightarrow> v)"

text \<open>
  \<^verbatim>\<open>s.replace(/\/$/, "")\<close>: without the multiline flag \<^verbatim>\<open>$\<close> matches at the end of
  the input only, so one trailing slash is removed when there is one.
\<close>

definition strip_trailing_slash :: "string \<Rightarrow> string" where
  "strip_trailing_slash s = (if s \<noteq> [] \<and> last s = CHR ''/'' then butlast s else s)"

text \<open>\<^verbatim>\<open>process.env\<close>: a variable is a string or \<^verbatim>\<open>undefined\<close>.\<close>

type_synonym env = "string \<Rightarrow> string option"

section \<open>SDK configuration (config.ts)\<close>

record TokenTrackrOptions =
  opt_backendUrl :: "string option"
  opt_apiKey :: "string option"
  opt_tenantId :: "string option"
  opt_batchSize :: "int option"
  opt_flushInterval :: "int option"
  opt_maxQueueSize :: "int option"
  opt_retryAttempts :: "int option"
  opt_timeout :: "int option"
  opt_asyncMode :: "bool option"

record TokenTrackrConfig =
  backendUrl :: string
  apiKey :: "string option"
  tenantId :: string
  batchSize :: int
  flushInterval :: int
  maxQueueSize :: int
  retryAttempts :: int
  timeout :: int
  asyncMode :: bool

text \<open>The default argument of the constructor, \<^verbatim>\<open>options: TokenTrackrOptions = {}\<close>.\<close>

definition no_options :: TokenTrackrOptions where
  "no_options = \<lparr>opt_backendUrl = None, opt_apiKey = None, opt_tenantId = None,
     opt_batchSize = None, opt_flushInterval = None, opt_maxQueueSize = None,
     opt_retryAttempts = None, opt_timeout = None, opt_asyncMode = None\<rparr>"

text \<open>
  The backend URL before the trailing slash is removed:
  \<^verbatim>\<open>options.backendUrl || process.env.TOKEN_TRACKR_URL || "http://localhost:8000"\<close>.
\<close>

definition resolved_url :: "TokenTrackrOptions \<Rightarrow> env \<Rightarrow> string" where
  "resolved_url options e =
     or_else (js_or (opt_backendUrl options) (e ''TOKEN_TRACKR_URL'')) ''http://localhost:8000''"

text \<open>
  The constructor of \<^verbatim>\<open>TokenTrackrConfig\<close>. It assigns every field and then tests the two
  required ones; a \<^verbatim>\<open>throw\<close> is \<open>Inl\<close> of the error message, and then there is no object.
\<close>

definition TokenTrackrConfig_new :: "TokenTrackrOptions \<Rightarrow> env \<Rightarrow> string + TokenTrackrConfig" where
  "TokenTrackrConfig_new options e =
     (let this = \<lparr>
        backendUrl = strip_trailing_slash (resolved_url options e),
        apiKey = js_or (opt_apiKey options) (e ''TOKEN_TRACKR_API_KEY''),
        tenantId = or_else (js_or (opt_tenantId options) (e ''TOKEN_TRACKR_TENANT_ID'')) ''default'',
        batchSize = nullish (opt_batchSize options) 10,
        flushInterval = nullish (opt_flushInterval options) 5,
        maxQueueSize = nullish (opt_maxQueueSize options) 1000,
        retryAttempts = nullish (opt_retryAttempts options) 3,
        timeout = nullish (opt_timeout options) 30000,
        asyncMode = nullish (opt_asyncMode options) True\<rparr>
      in if backendUrl this = [] then Inl ''backendUrl is required''
         else if tenantId this = [] then Inl ''tenantId is required''
         else Inr this)"

section \<open>Host metadata (metadata.ts)\<close>

text \<open>The string literal type \<^verbatim>\<open>"aws" | "azure" | "gcp" | "on-prem" | "unknown"\<close>.\<close>

datatype CloudProvider = Aws | Azure | Gcp | OnPrem | Unknown

record K8sMetadata =
  pod :: "string option"
  namespace :: "string option"
  node :: "string option"

record HostMetadata =
  hostname :: string
  cloudProvider :: CloudProvider
  instanceId :: "string option"
  k8s :: "K8sMetadata option"

text \<open>
  What the functions of this file read from the outside world. A request is what \<^verbatim>\<open>fetch\<close>
  is called with; \<open>fetch\<close> answers with the text of the response, or with \<open>None\<close> when
  \<^verbatim>\<open>fetch\<close> or \<^verbatim>\<open>text()\<close> rejects (no route, abort after the 1000 ms timeout). An HTTP error
  status does not reject. \<open>readFileSync\<close> is \<open>None\<close> where the call throws.
\<close>

record request =
  url :: string
  http_method :: string
  headers :: "(string \<times> string) list"

record host =
  os_hostname :: string
  existsSync :: "string \<Rightarrow> bool"
  readFileSync :: "string \<Rightarrow> string option"
  process_env :: env
  fetch :: "request \<Rightarrow> string option"

definition isRunningInKubernetes :: "host \<Rightarrow> bool" where
  "isRunningInKubernetes h = existsSync h ''/var/run/secrets/kubernetes.io/serviceaccount/token''"

text \<open>
  \<^verbatim>\<open>String.prototype.trim\<close>. A string is the list of the UTF-8 bytes of the JavaScript
  string, so the white space and line terminator characters that \<^verbatim>\<open>trim\<close> removes are byte
  sequences: U+0009 to U+000D and U+0020, U+00A0, U+1680, U+2000 to U+200A, U+2028, U+2029,
  U+202F, U+205F, U+3000 and U+FEFF. \<open>strip\<close> removes such sequences from the front, at most
  as many as the string has bytes.
\<close>

definition white_space :: "string list" where
  "white_space =
     [[CHR 0x09], [CHR 0x0A], [CHR 0x0B], [CHR 0x0C], [CHR 0x0D], [CHR 0x20],
      [CHR 0xC2, CHR 0xA0], [CHR 0xE1, CHR 0x9A, CHR 0x80],
      [CHR 0xE2, CHR 0x80, CHR 0x80], [CHR 0xE2, CHR 0x80, CHR 0x81],
      [CHR 0xE2, CHR 0x80, CHR 0x82], [CHR 0xE2, CHR 0x80, CHR 0x83],
      [CHR 0xE2, CHR 0x80, CHR 0x84], [CHR 0xE2, CHR 0x80, CHR 0x85],
      [CHR 0xE2, CHR 0x80, CHR 0x86], [CHR 0xE2, CHR 0x80, CHR 0x87],
      [CHR 0xE2, CHR 0x80, CHR 0x88], [CHR 0xE2, CHR 0x80, CHR 0x89],
      [CHR 0xE2, CHR 0x80, CHR 0x8A], [CHR 0xE2, CHR 0x80, CHR 0xA8],
      [CHR 0xE2, CHR 0x80, CHR 0xA9], [CHR 0xE2, CHR 0x80, CHR 0xAF],
      [CHR 0xE2, CHR 0x81, CHR 0x9F], [CHR 0xE3, CHR 0x80, CHR 0x80],
      [CHR 0xEF, CHR 0xBB, CHR 0xBF]]"

fun strip :: "string list \<Rightarrow> nat \<Rightarrow> string \<Rightarrow> string" where
  "strip ws 0 s = s"
| "strip ws (Suc n) s =
     (case find (\<lambda>w. take (length w) s = w) ws of
        None \<Rightarrow> s
      | Some w \<Rightarrow> strip ws n (drop (length w) s))"

definition trim :: "string \<Rightarrow> string" where
  "trim s =
     (let front = strip white_space (length s) s
      in rev (strip (map rev white_space) (length front) (rev front)))"

definition getK8sMetadata :: "host \<Rightarrow> K8sMetadata option" where
  "getK8sMetadata h =
     (if \<not> isRunningInKubernetes h then None
      else
        let ns =
          (case readFileSync h ''/var/run/secrets/kubernetes.io/serviceaccount/namespace'' of
             Some text \<Rightarrow> Some (trim text)
           | None \<Rightarrow> process_env h ''POD_NAMESPACE'')
        in Some \<lparr>pod = js_or (process_env h ''HOSTNAME'') (process_env h ''POD_NAME''),
                 namespace = ns,
                 node = process_env h ''NODE_NAME''\<rparr>)"

text \<open>
  Each probe returns the pair of the source, \<^verbatim>\<open>[boolean, string | undefined]\<close>, and the list
  of the requests it made, in order. The \<^verbatim>\<open>catch\<close> of a probe turns every rejection into
  \<^verbatim>\<open>[false, undefined]\<close>.
\<close>

definition aws_token_request :: request where
  "aws_token_request = \<lparr>url = ''http://169.254.169.254/latest/api/token'', http_method = ''PUT'',
     headers = [(''X-aws-ec2-metadata-token-ttl-seconds'', ''21600'')]\<rparr>"

definition aws_instance_request :: "string \<Rightarrow> request" where
  "aws_instance_request token = \<lparr>url = ''http://169.254.169.254/latest/meta-data/instance-id'',
     http_method = ''GET'', headers = [(''X-aws-ec2-metadata-token'', token)]\<rparr>"

definition azure_request :: request where
  "azure_request = \<lparr>url = ''http://169.254.169.254/metadata/instance/compute/vmId?api-version=2021-02-01&format=text'',
     http_method = ''GET'', headers = [(''Metadata'', ''true'')]\<rparr>"

definition gcp_request :: request where
  "gcp_request = \<lparr>url = ''http://metadata.google.internal/computeMetadata/v1/instance/id'',
     http_method = ''GET'', headers = [(''Metadata-Flavor'', ''Google'')]\<rparr>"

definition detectAWS :: "host \<Rightarrow> (bool \<times> string option) \<times> request list" where
  "detectAWS h =
     (case fetch h aws_token_request of
        None \<Rightarrow> ((False, None), [aws_token_request])
      | Some token \<Rightarrow>
          (case fetch h (aws_instance_request token) of
             None \<Rightarrow> ((False, None), [aws_token_request, aws_instance_request token])
           | Some iid \<Rightarrow>
               ((True, Some iid), [aws_token_request, aws_instance_request token])))"

definition detectAzure :: "host \<Rightarrow> (bool \<times> string option) \<times> request list" where
  "detectAzure h =
     (case fetch h azure_request of
        None \<Rightarrow> ((False, None), [azure_request])
      | Some iid \<Rightarrow> ((True, Some iid), [azure_request]))"

definition detectGCP :: "host \<Rightarrow> (bool \<times> string option) \<times> request list" where
  "detectGCP h =
     (case fetch h gcp_request of
        None \<Rightarrow> ((False, None), [gcp_request])
      | Some iid \<Rightarrow> ((True, Some iid), [gcp_request]))"

text \<open>\<^verbatim>\<open>getHostMetadata\<close>: the metadata it resolves to and the requests made on the way.\<close>

definition getHostMetadata :: "host \<Rightarrow> HostMetadata \<times> request list" where
  "getHostMetadata h =
     (let md = \<lparr>hostname = os_hostname h, cloudProvider = Unknown, instanceId = None, k8s = None\<rparr>;
          md = md\<lparr>k8s := getK8sMetadata h\<rparr>;
          ((isAWS, awsInstance), log1) = detectAWS h
      in if isAWS then (md\<lparr>cloudProvider := Aws, instanceId := awsInstance\<rparr>, log1)
         else
           let ((isAzure, azureInstance), log2) = detectAzure h
           in if isAzure
              then (md\<lparr>cloudProvider := Azure, instanceId := azureInstance\<rparr>, log1 @ log2)
              else
                let ((isGCP, gcpInstance), log3) = detectGCP h
                in if isGCP
                   then (md\<lparr>cloudProvider := Gcp, instanceId := gcpInstance\<rparr>,
                         log1 @ log2 @ log3)
                   else (md\<lparr>cloudProvider := OnPrem\<rparr>, log1 @ log2 @ log3))"

section \<open>Values returned by \<^verbatim>\<open>JSON.parse\<close>\<close>

text \<open>
  An object is the list of its properties; where a key is repeated the first pair of the
  list is the property (the parser keeps the last occurrence of the text).
\<close>

datatype json =
    JNull
  | JBool bool
  | JNum int
  | JStr string
  | JArr "json list"
  | JObj "(string \<times> json) list"

fun truthy :: "json \<Rightarrow> bool" where
  "truthy JNull = False"
| "truthy (JBool b) = b"
| "truthy (JNum n) = (n \<noteq> 0)"
| "truthy (JStr s) = (s \<noteq> [])"
| "truthy (JArr xs) = True"
| "truthy (JObj kvs) = True"

text \<open>
  \<^verbatim>\<open>v.key\<close> for a value that is not \<^verbatim>\<open>null\<close>, with \<open>None\<close> for \<^verbatim>\<open>undefined\<close>. The keys read
  below are never names of built-in properties, so only an object has them.
\<close>

fun property :: "json \<Rightarrow> string \<Rightarrow> json option" where
  "property (JObj kvs) key = map_of kvs key"
| "property v key = None"

text \<open>\<^verbatim>\<open>v.key\<close> where \<open>v\<close> may be \<^verbatim>\<open>null\<close>: reading a property of \<^verbatim>\<open>null\<close> throws.\<close>

datatype error = TypeError | SyntaxError | Rejected




text \<open>\<^verbatim>\<open>a || 0\<close>.\<close>

definition or0 :: "json option \<Rightarrow> json" where
  "or0 a = (case a of None \<Rightarrow> JNum 0 | Some v \<Rightarrow> if truthy v then v else JNum 0)"

text \<open>\<^verbatim>\<open>n || 0\<close> on a value of type \<^verbatim>\<open>number\<close>.\<close>

definition num_or0 :: "int \<Rightarrow> int" where
  "num_or0 n = (if n \<noteq> 0 then n else 0)"





section \<open>What the wrappers hand to the client\<close>

text \<open>
  Every wrapper ends in one call \<^verbatim>\<open>this.client.record({...})\<close>. \<open>UsageArgs\<close> is the object
  literal of that call; the type of the two counts is a parameter, since the Bedrock
  wrapper passes on whatever \<^verbatim>\<open>JSON.parse\<close> returned and the other two pass numbers.
  \<open>latencyMs\<close> is the difference of two readings of \<^verbatim>\<open>Date.now()\<close> and is given.
\<close>

datatype Provider = Bedrock | AzureOpenAI | Gemini

record 'n UsageArgs =
  provider :: Provider
  model :: string
  promptTokens :: 'n
  completionTokens :: 'n
  latencyMs :: int
  metadata :: "(string \<times> string option) list option"

text \<open>
  What an async generator does when it is consumed to the end: the values it yields, the
  calls of \<^verbatim>\<open>client.record\<close> it makes, and the exception it ends with, in order.
\<close>

datatype ('c, 'n) effect = Yield 'c | Record "'n UsageArgs" | Throw error

text \<open>
  A provider stream is the list of the chunks it produces and whether it then completes
  (\<open>True\<close>) or throws; \<open>None\<close> is a request that rejects before any chunk.
\<close>

type_synonym 'c stream = "('c list \<times> bool) option"

text \<open>
  The loop shared by the streaming generators of gemini.ts and azure-openai.ts,
  \<^verbatim>\<open>for await (const chunk of stream) { <update the counts>; yield chunk; }\<close>, followed by
  what comes after the loop.
\<close>

fun for_await :: "('c \<Rightarrow> 's \<Rightarrow> 's) \<Rightarrow> ('s \<Rightarrow> ('c, 'n) effect list) \<Rightarrow> 's \<Rightarrow> 'c list \<Rightarrow> ('c, 'n) effect list" where
  "for_await update after s [] = after s"
| "for_await update after s (chunk # rest) = Yield chunk # for_await update after (update chunk s) rest"

section \<open>AWS Bedrock wrapper (bedrock.ts)\<close>



text \<open>
  The body of the \<^verbatim>\<open>if (chunkData.type === "message_stop")\<close> block of the streaming loop:
  the new values of \<^verbatim>\<open>promptTokens\<close> and \<^verbatim>\<open>completionTokens\<close>. \<open>chunkData\<close> is not \<^verbatim>\<open>null\<close> here.
\<close>

definition message_stop_metrics :: "json \<Rightarrow> json option" where
  "message_stop_metrics chunkData =
     (if property chunkData ''type'' = Some (JStr ''message_stop'') then
        (case property chunkData ''amazon-bedrock-invocationMetrics'' of
           None \<Rightarrow> None
         | Some metrics \<Rightarrow> if truthy metrics then Some metrics else None)
      else None)"

definition bedrock_update :: "json \<Rightarrow> json \<times> json \<Rightarrow> json \<times> json" where
  "bedrock_update chunkData counts =
     (case message_stop_metrics chunkData of
        None \<Rightarrow> counts
      | Some metrics \<Rightarrow>
          (or0 (property metrics ''inputTokenCount''), or0 (property metrics ''outputTokenCount'')))"

text \<open>
  The loop of \<^verbatim>\<open>invokeModelWithResponseStream\<close> over the events of \<^verbatim>\<open>response.body\<close>. An
  event is \<^verbatim>\<open>event.chunk?.bytes\<close>: \<open>None\<close> when the event has no chunk, and then it is
  skipped. A chunk that does not parse, or parses to \<^verbatim>\<open>null\<close>, ends the generator with
  an exception.
\<close>

fun bedrock_loop ::
  "(string \<Rightarrow> json option) \<Rightarrow> (json \<times> json \<Rightarrow> (json, json) effect list) \<Rightarrow> json \<times> json \<Rightarrow>
     string option list \<Rightarrow> (json, json) effect list" where
  "bedrock_loop JSON_parse after counts [] = after counts"
| "bedrock_loop JSON_parse after counts (None # rest) = bedrock_loop JSON_parse after counts rest"
| "bedrock_loop JSON_parse after counts (Some bytes # rest) =
     (case JSON_parse bytes of
        None \<Rightarrow> [Throw SyntaxError]
      | Some chunkData \<Rightarrow>
          if chunkData = JNull then [Throw TypeError]
          else Yield chunkData # bedrock_loop JSON_parse after (bedrock_update chunkData counts) rest)"

definition record_or_throw :: "bool \<Rightarrow> 'n UsageArgs \<Rightarrow> ('c, 'n) effect list" where
  "record_or_throw completes args = (if completes then [Record args] else [Throw Rejected])"

definition invokeModelWithResponseStream ::
  "string \<Rightarrow> string option stream \<Rightarrow> (string \<Rightarrow> json option) \<Rightarrow> int \<Rightarrow> (json, json) effect list" where
  "invokeModelWithResponseStream modelId response JSON_parse ms =
     (case response of
        None \<Rightarrow> [Throw Rejected]
      | Some (events, completes) \<Rightarrow>
          bedrock_loop JSON_parse
            (\<lambda>(p, c). record_or_throw completes
               \<lparr>provider = Bedrock, model = modelId, promptTokens = p, completionTokens = c,
                latencyMs = ms, metadata = None\<rparr>)
            (JNum 0, JNum 0) events)"

section \<open>Google Gemini wrapper (gemini.ts)\<close>

record UsageMetadata =
  promptTokenCount :: int
  candidatesTokenCount :: int
  totalTokenCount :: int

text \<open>
  \<^verbatim>\<open>GenerateContentResponse\<close>, without the nesting under \<^verbatim>\<open>response\<close> and without the content
  of a candidate, which the wrapper does not read.
\<close>

record Candidate =
  finishReason :: "string option"

record GenerateContentResponse =
  candidates :: "Candidate list option"
  usageMetadata :: "UsageMetadata option"



text \<open>\<^verbatim>\<open>this.modelName = model.model || "gemini-unknown"\<close>, of the constructor.\<close>

definition gemini_modelName :: "string option \<Rightarrow> string" where
  "gemini_modelName m = or_else m ''gemini-unknown''"


text \<open>The \<^verbatim>\<open>if (usage) {...}\<close> of the streaming loops.\<close>

definition gemini_update :: "GenerateContentResponse \<Rightarrow> int \<times> int \<Rightarrow> int \<times> int" where
  "gemini_update chunk counts =
     (case usageMetadata chunk of
        None \<Rightarrow> counts
      | Some usage \<Rightarrow> (num_or0 (promptTokenCount usage), num_or0 (candidatesTokenCount usage)))"

definition generateContentStream ::
  "string \<Rightarrow> GenerateContentResponse stream \<Rightarrow> int \<Rightarrow> (GenerateContentResponse, int) effect list" where
  "generateContentStream modelName stream ms =
     (case stream of
        None \<Rightarrow> [Throw Rejected]
      | Some (chunks, completes) \<Rightarrow>
          for_await gemini_update
            (\<lambda>(p, c). record_or_throw completes
               \<lparr>provider = Gemini, model = modelName, promptTokens = p, completionTokens = c,
                latencyMs = ms, metadata = None\<rparr>)
            (0, 0) chunks)"


definition sendMessageStream ::
  "string \<Rightarrow> GenerateContentResponse stream \<Rightarrow> int \<Rightarrow> (GenerateContentResponse, int) effect list" where
  "sendMessageStream modelName stream ms =
     (case stream of
        None \<Rightarrow> [Throw Rejected]
      | Some (chunks, completes) \<Rightarrow>
          for_await gemini_update
            (\<lambda>(p, c). record_or_throw completes
               \<lparr>provider = Gemini, model = modelName, promptTokens = p, completionTokens = c,
                latencyMs = ms, metadata = None\<rparr>)
            (0, 0) chunks)"

section \<open>Azure OpenAI wrapper (azure-openai.ts)\<close>

text \<open>
  The response types of the file, without the fields the wrapper does not read (the message
  of a choice, the choices of a stream event, the data of an embeddings response).
\<close>

record AzureUsage =
  usage_promptTokens :: int
  usage_completionTokens :: int
  usage_totalTokens :: int

record Choice =
  choice_finishReason :: string

record ChatCompletionResponse =
  response_id :: string
  choices :: "Choice list"
  usage :: "AzureUsage option"

record StreamUsage =
  stream_promptTokens :: int
  stream_completionTokens :: int

record StreamEvent =
  event_usage :: "StreamUsage option"

record EmbeddingsUsage =
  embeddings_promptTokens :: int
  embeddings_totalTokens :: int




definition azure_update :: "StreamEvent \<Rightarrow> int \<times> int \<Rightarrow> int \<times> int" where
  "azure_update event counts =
     (case event_usage event of
        None \<Rightarrow> counts
      | Some u \<Rightarrow> (num_or0 (stream_promptTokens u), num_or0 (stream_completionTokens u)))"

definition streamChatCompletions ::
  "string \<Rightarrow> StreamEvent stream \<Rightarrow> int \<Rightarrow> (StreamEvent, int) effect list" where
  "streamChatCompletions deploymentName stream ms =
     (case stream of
        None \<Rightarrow> [Throw Rejected]
      | Some (events, completes) \<Rightarrow>
          for_await azure_update
            (\<lambda>(p, c). record_or_throw completes
               \<lparr>provider = AzureOpenAI, model = deploymentName, promptTokens = p,
                completionTokens = c, latencyMs = ms, metadata = None\<rparr>)
            (0, 0) events)"


section \<open>Reading a trace\<close>

fun records_of :: "('c, 'n) effect list \<Rightarrow> 'n UsageArgs list" where
  "records_of [] = []"
| "records_of (Record a # t) = a # records_of t"
| "records_of (_ # t) = records_of t"

fun yields_of :: "('c, 'n) effect list \<Rightarrow> 'c list" where
  "yields_of [] = []"
| "yields_of (Yield c # t) = c # yields_of t"
| "yields_of (_ # t) = yields_of t"

text \<open>The chunks of a Bedrock stream that reach the consumer: the events that carry bytes, parsed.\<close>

fun parsed_chunks :: "(string \<Rightarrow> json option) \<Rightarrow> string option list \<Rightarrow> json list option" where
  "parsed_chunks JSON_parse [] = Some []"
| "parsed_chunks JSON_parse (None # rest) = parsed_chunks JSON_parse rest"
| "parsed_chunks JSON_parse (Some bytes # rest) =
     (case JSON_parse bytes of
        None \<Rightarrow> None
      | Some chunkData \<Rightarrow>
          if chunkData = JNull then None
          else map_option ((#) chunkData) (parsed_chunks JSON_parse rest))"

text \<open>
  The last element of a list that carries usage, as the claims about streaming word it:
  \<open>carried\<close> reads the usage of a chunk, \<open>None\<close> when it has none.
\<close>

definition last_usage :: "('c \<Rightarrow> 'u option) \<Rightarrow> 'c list \<Rightarrow> 'u option" where
  "last_usage carried chunks =
     (case find (\<lambda>chunk. carried chunk \<noteq> None) (rev chunks) of
        None \<Rightarrow> None
      | Some chunk \<Rightarrow> carried chunk)"













text \<open>The two counts of a call of \<^verbatim>\<open>client.record\<close>.\<close>

definition token_counts :: "'n UsageArgs \<Rightarrow> 'n \<times> 'n" where
  "token_counts a = (promptTokens a, completionTokens a)"

text \<open>Which cloud a request of the metadata probes goes to, read off its URL.\<close>

definition probe_of :: "request \<Rightarrow> CloudProvider" where
  "probe_of r =
     (if url r = url aws_token_request \<or> url r = url (aws_instance_request []) then Aws
      else if url r = url azure_request then Azure
      else if url r = url gcp_request then Gcp
      else Unknown)"

definition probes_attempted :: "request list \<Rightarrow> CloudProvider list" where
  "probes_attempted log = remdups_adj (map probe_of log)"

section \<open>Delivery queue and retry (client.ts)\<close>

text \<open>
  client.ts, which holds the queue and the delivery loop of the client, is not among the
  sources. The definitions of this section are written from sections 4.1 and 4.3 of the
  specification.
\<close>

text \<open>
  Modelled from the spec: the state of the bounded queue of client.ts, the pending events
  in insertion order, the configured capacity and the number of drops reported so far.
\<close>

record 'a BoundedQueue =
  items :: "'a list"
  capacity :: nat
  drops :: nat

datatype enqueue_report = Enqueued | DroppedOverflow

definition new_queue :: "nat \<Rightarrow> 'a BoundedQueue" where
  "new_queue cap = \<lparr>items = [], capacity = cap, drops = 0\<rparr>"

text \<open>Modelled from the spec: \<^verbatim>\<open>size()\<close> of the queue of client.ts, its current length.\<close>

definition queue_size :: "'a BoundedQueue \<Rightarrow> nat" where
  "queue_size q = length (items q)"

text \<open>
  Modelled from the spec: \<^verbatim>\<open>enqueue(event)\<close> of the queue of client.ts. It appends to the
  tail; if the current length already equals the capacity, the incoming event is dropped
  and the drop is reported, and the caller is neither blocked nor failed.
\<close>

definition enqueue :: "'a \<Rightarrow> 'a BoundedQueue \<Rightarrow> 'a BoundedQueue \<times> enqueue_report" where
  "enqueue event q =
     (if queue_size q = capacity q then (q\<lparr>drops := drops q + 1\<rparr>, DroppedOverflow)
      else (q\<lparr>items := items q @ [event]\<rparr>, Enqueued))"

text \<open>
  Modelled from the spec: \<^verbatim>\<open>drain(maxCount)\<close> of the queue of client.ts. It removes and
  returns up to \<open>maxCount\<close> events from the head, all of them if fewer are present, and
  nothing if the queue is empty.
\<close>

definition drain :: "nat \<Rightarrow> 'a BoundedQueue \<Rightarrow> 'a list \<times> 'a BoundedQueue" where
  "drain maxCount q = (take maxCount (items q), q\<lparr>items := drop maxCount (items q)\<rparr>)"

text \<open>A sequence of operations on one queue, and the reports of its enqueues.\<close>

datatype 'a queue_op = Enqueue 'a | Drain nat

fun run_ops :: "'a queue_op list \<Rightarrow> 'a BoundedQueue \<Rightarrow> 'a BoundedQueue \<times> enqueue_report list" where
  "run_ops [] q = (q, [])"
| "run_ops (Enqueue event # ops) q =
     (let (q', report) = enqueue event q; (q'', reports) = run_ops ops q'
      in (q'', report # reports))"
| "run_ops (Drain maxCount # ops) q = run_ops ops (snd (drain maxCount q))"

text \<open>
  Modelled from the spec: the failures of a delivery attempt of client.ts. A timeout, a
  connection error, a 5xx and a 429 are transient; a 4xx other than 429 is permanent.
\<close>

datatype failure = Timeout | ConnectionError | ServerError | RateLimited | ClientError

datatype attempt = Success | Failed failure

definition transient :: "failure \<Rightarrow> bool" where
  "transient f = (f \<noteq> ClientError)"

definition transient_failure :: "attempt \<Rightarrow> bool" where
  "transient_failure a = (case a of Success \<Rightarrow> False | Failed f \<Rightarrow> transient f)"

datatype outcome = Delivered | DroppedPermanent failure | DroppedExhausted

text \<open>What goes to the error channel: the number of attempts made, or the permanent failure.\<close>

datatype report = TerminalFailure nat | PermanentFailure failure

record delivery =
  attempted :: "nat list"
  waits :: "nat list"
  result :: outcome
  reported :: "report list"

text \<open>
  Modelled from the spec: the retry loop of the delivery scheduler of client.ts. A transient
  failure is retried up to the configured attempt count, after a delay that doubles with
  each attempt up to a ceiling; a permanent failure is not retried and the batch is
  dropped; after the last attempt the batch is dropped and the failure is reported through
  the error channel. The outcome is a value: nothing is thrown to the caller of \<^verbatim>\<open>record\<close>.
  \<open>transport k\<close> is the result of the \<open>k\<close>-th attempt, counted from 1; \<open>made\<close> is the number
  of attempts made so far and the last argument the number still allowed.
\<close>

fun retry_loop :: "(nat \<Rightarrow> attempt) \<Rightarrow> nat \<Rightarrow> nat \<Rightarrow> nat \<Rightarrow> nat \<Rightarrow> delivery" where
  "retry_loop transport ceiling delay made 0 =
     \<lparr>attempted = [], waits = [], result = DroppedExhausted, reported = [TerminalFailure made]\<rparr>"
| "retry_loop transport ceiling delay made (Suc remaining) =
     (case transport (Suc made) of
        Success \<Rightarrow> \<lparr>attempted = [Suc made], waits = [], result = Delivered, reported = []\<rparr>
      | Failed f \<Rightarrow>
          if \<not> transient f then
            \<lparr>attempted = [Suc made], waits = [], result = DroppedPermanent f,
             reported = [PermanentFailure f]\<rparr>
          else
            let d = retry_loop transport ceiling (min ceiling (2 * delay)) (Suc made) remaining
            in d\<lparr>attempted := Suc made # attempted d,
                 waits := (if remaining = 0 then waits d else delay # waits d)\<rparr>)"

text \<open>
  Modelled from the spec: one delivery cycle of client.ts for a batch, with the configured
  attempt count, the base delay and the ceiling of the backoff. The result holds the
  attempts made, the waits between them, the outcome and what was reported.
\<close>

definition deliver :: "(nat \<Rightarrow> attempt) \<Rightarrow> nat \<Rightarrow> nat \<Rightarrow> nat \<Rightarrow> delivery" where
  "deliver transport attempts baseDelay ceiling =
     retry_loop transport ceiling (min ceiling baseDelay) 0 attempts"

section \<open>Events and their wire payloads (types.ts)\<close>

text \<open>
  A \<^verbatim>\<open>Date\<close>, by the components its \<^verbatim>\<open>getUTC...\<close> methods return; \<^verbatim>\<open>getUTCMonth()\<close> counts
  the months from 0.
\<close>

record Date =
  utc_year :: nat
  utc_month :: nat
  utc_day :: nat
  utc_hours :: nat
  utc_minutes :: nat
  utc_seconds :: nat
  utc_milliseconds :: nat

record UsageEvent =
  event_tenantId :: string
  event_provider :: Provider
  event_model :: string
  event_promptTokens :: int
  event_completionTokens :: int
  event_timestamp :: Date
  event_latencyMs :: "int option"
  event_host :: "HostMetadata option"
  event_metadata :: "(string \<times> json) list option"

record K8sPayload =
  payload_pod :: "string option"
  payload_namespace :: "string option"
  payload_node :: "string option"

record HostPayload =
  payload_hostname :: string
  cloud_provider :: string
  instance_id :: "string option"
  payload_k8s :: "K8sPayload option"

record UsageEventPayload =
  tenant_id :: string
  payload_provider :: string
  payload_model :: string
  prompt_tokens :: int
  completion_tokens :: int
  timestamp :: string
  latency_ms :: "int option"
  payload_host :: "HostPayload option"
  payload_metadata :: "(string \<times> json) list option"

text \<open>
  Modelled from the spec: the serialization of a payload, which client.ts does and is not
  among the sources. Section 6: the body is JSON, each payload an object with the fields of
  \<^verbatim>\<open>UsageEventPayload\<close>. As \<^verbatim>\<open>JSON.stringify\<close> does, a property that is \<^verbatim>\<open>undefined\<close> is
  left out. The result is the value the collector parses.
\<close>

definition optional_field :: "string \<Rightarrow> json option \<Rightarrow> (string \<times> json) list" where
  "optional_field key v = (case v of None \<Rightarrow> [] | Some j \<Rightarrow> [(key, j)])"

definition encode_k8s :: "K8sPayload \<Rightarrow> json" where
  "encode_k8s k =
     JObj (optional_field ''pod'' (map_option JStr (payload_pod k)) @
           optional_field ''namespace'' (map_option JStr (payload_namespace k)) @
           optional_field ''node'' (map_option JStr (payload_node k)))"

definition encode_host :: "HostPayload \<Rightarrow> json" where
  "encode_host h =
     JObj ([(''hostname'', JStr (payload_hostname h)),
            (''cloud_provider'', JStr (cloud_provider h))] @
           optional_field ''instance_id'' (map_option JStr (instance_id h)) @
           optional_field ''k8s'' (map_option encode_k8s (payload_k8s h)))"

definition encode_payload :: "UsageEventPayload \<Rightarrow> json" where
  "encode_payload p =
     JObj ([(''tenant_id'', JStr (tenant_id p)),
            (''provider'', JStr (payload_provider p)),
            (''model'', JStr (payload_model p)),
            (''prompt_tokens'', JNum (prompt_tokens p)),
            (''completion_tokens'', JNum (completion_tokens p)),
            (''timestamp'', JStr (timestamp p))] @
           optional_field ''latency_ms'' (map_option JNum (latency_ms p)) @
           optional_field ''host'' (map_option encode_host (payload_host p)) @
           optional_field ''metadata'' (map_option JObj (payload_metadata p)))"

text \<open>
  \<^verbatim>\<open>Date.prototype.toISOString\<close> for the years 0 to 9999:
  \<^verbatim>\<open>YYYY-MM-DDTHH:mm:ss.sssZ\<close>, every component padded with zeros.
\<close>

definition digit :: "nat \<Rightarrow> char" where
  "digit n = ''0123456789'' ! n"

definition pad2 :: "nat \<Rightarrow> string" where
  "pad2 n = [digit (n div 10), digit (n mod 10)]"

definition pad3 :: "nat \<Rightarrow> string" where
  "pad3 n = digit (n div 100) # pad2 (n mod 100)"

definition pad4 :: "nat \<Rightarrow> string" where
  "pad4 n = digit (n div 1000) # pad3 (n mod 1000)"

definition valid_date :: "Date \<Rightarrow> bool" where
  "valid_date d =
     (utc_year d \<le> 9999 \<and> utc_month d \<le> 11 \<and>
      1 \<le> utc_day d \<and> utc_day d \<le> 31 \<and> utc_hours d \<le> 23 \<and> utc_minutes d \<le> 59 \<and>
      utc_seconds d \<le> 59 \<and> utc_milliseconds d \<le> 999)"

definition toISOString :: "Date \<Rightarrow> string" where
  "toISOString d =
     pad4 (utc_year d) @ ''-'' @ pad2 (utc_month d + 1) @ ''-'' @ pad2 (utc_day d) @ ''T'' @
     pad2 (utc_hours d) @ '':'' @ pad2 (utc_minutes d) @ '':'' @ pad2 (utc_seconds d) @ ''.'' @
     pad3 (utc_milliseconds d) @ ''Z''"

text \<open>The string literal types of \<^verbatim>\<open>provider\<close> and \<^verbatim>\<open>cloudProvider\<close> as the strings they are.\<close>

fun provider_name :: "Provider \<Rightarrow> string" where
  "provider_name Bedrock = ''bedrock''"
| "provider_name AzureOpenAI = ''azure_openai''"
| "provider_name Gemini = ''gemini''"

fun cloud_name :: "CloudProvider \<Rightarrow> string" where
  "cloud_name Aws = ''aws''"
| "cloud_name Azure = ''azure''"
| "cloud_name Gcp = ''gcp''"
| "cloud_name OnPrem = ''on-prem''"
| "cloud_name Unknown = ''unknown''"

text \<open>
  Modelled from the spec: the conversion of an event to its wire payload, which client.ts
  does and is not among the sources; the two types are those of types.ts. Section 6: each
  payload has the fields \<^verbatim>\<open>tenant_id\<close>, \<^verbatim>\<open>provider\<close>, \<^verbatim>\<open>model\<close>, \<^verbatim>\<open>prompt_tokens\<close>,
  \<^verbatim>\<open>completion_tokens\<close>, \<^verbatim>\<open>timestamp\<close> (an ISO-8601 string) and, optionally, \<^verbatim>\<open>latency_ms\<close>,
  \<^verbatim>\<open>host\<close> and \<^verbatim>\<open>metadata\<close>. Each field of the payload is the field of the event it is named
  after.
\<close>

definition k8s_payload :: "K8sMetadata \<Rightarrow> K8sPayload" where
  "k8s_payload k = \<lparr>payload_pod = pod k, payload_namespace = namespace k, payload_node = node k\<rparr>"

definition host_payload :: "HostMetadata \<Rightarrow> HostPayload" where
  "host_payload h =
     \<lparr>payload_hostname = hostname h, cloud_provider = cloud_name (cloudProvider h),
      instance_id = instanceId h, payload_k8s = map_option k8s_payload (k8s h)\<rparr>"

definition toPayload :: "UsageEvent \<Rightarrow> UsageEventPayload" where
  "toPayload e =
     \<lparr>tenant_id = event_tenantId e,
      payload_provider = provider_name (event_provider e),
      payload_model = event_model e,
      prompt_tokens = event_promptTokens e,
      completion_tokens = event_completionTokens e,
      timestamp = toISOString (event_timestamp e),
      latency_ms = event_latencyMs e,
      payload_host = map_option host_payload (event_host e),
      payload_metadata = event_metadata e\<rparr>"

text \<open>
  The shape of a wire payload as the interface contract words it: which keys an object
  has and what kind of value is under each.
\<close>

definition is_string :: "json \<Rightarrow> bool" where
  "is_string j = (case j of JStr s \<Rightarrow> True | _ \<Rightarrow> False)"

definition is_integer :: "json \<Rightarrow> bool" where
  "is_integer j = (case j of JNum n \<Rightarrow> True | _ \<Rightarrow> False)"

definition is_object :: "json \<Rightarrow> bool" where
  "is_object j = (case j of JObj kvs \<Rightarrow> True | _ \<Rightarrow> False)"

definition is_digit :: "char \<Rightarrow> bool" where
  "is_digit c = (c \<in> set ''0123456789'')"

definition matches :: "char \<Rightarrow> char \<Rightarrow> bool" where
  "matches pattern c = (if pattern = CHR ''9'' then is_digit c else c = pattern)"

definition is_iso8601 :: "string \<Rightarrow> bool" where
  "is_iso8601 s = list_all2 matches ''9999-99-99T99:99:99.999Z'' s"

definition is_iso8601_string :: "json \<Rightarrow> bool" where
  "is_iso8601_string j = (case j of JStr s \<Rightarrow> is_iso8601 s | _ \<Rightarrow> False)"

definition required :: "(json \<Rightarrow> bool) \<Rightarrow> (string \<times> json) list \<Rightarrow> string \<Rightarrow> bool" where
  "required kind kvs key = (case map_of kvs key of None \<Rightarrow> False | Some v \<Rightarrow> kind v)"

definition optional :: "(json \<Rightarrow> bool) \<Rightarrow> (string \<times> json) list \<Rightarrow> string \<Rightarrow> bool" where
  "optional kind kvs key = (case map_of kvs key of None \<Rightarrow> True | Some v \<Rightarrow> kind v)"

definition keys_among :: "(string \<times> json) list \<Rightarrow> string list \<Rightarrow> bool" where
  "keys_among kvs keys = (distinct (map fst kvs) \<and> list_all (\<lambda>k. k \<in> set keys) (map fst kvs))"

definition k8s_shape :: "json \<Rightarrow> bool" where
  "k8s_shape j =
     (case j of
        JObj kvs \<Rightarrow>
          keys_among kvs [''pod'', ''namespace'', ''node''] \<and>
          optional is_string kvs ''pod'' \<and> optional is_string kvs ''namespace'' \<and>
          optional is_string kvs ''node''
      | _ \<Rightarrow> False)"

definition host_shape :: "json \<Rightarrow> bool" where
  "host_shape j =
     (case j of
        JObj kvs \<Rightarrow>
          keys_among kvs [''hostname'', ''cloud_provider'', ''instance_id'', ''k8s''] \<and>
          required is_string kvs ''hostname'' \<and> required is_string kvs ''cloud_provider'' \<and>
          optional is_string kvs ''instance_id'' \<and> optional k8s_shape kvs ''k8s''
      | _ \<Rightarrow> False)"

definition wire_shape :: "json \<Rightarrow> bool" where
  "wire_shape j =
     (case j of
        JObj kvs \<Rightarrow>
          keys_among kvs [''tenant_id'', ''provider'', ''model'', ''prompt_tokens'',
            ''completion_tokens'', ''timestamp'', ''latency_ms'', ''host'', ''metadata''] \<and>
          required is_string kvs ''tenant_id'' \<and> required is_string kvs ''provider'' \<and>
          required is_string kvs ''model'' \<and> required is_integer kvs ''prompt_tokens'' \<and>
          required is_integer kvs ''completion_tokens'' \<and>
          required is_iso8601_string kvs ''timestamp'' \<and>
          optional is_integer kvs ''latency_ms'' \<and> optional host_shape kvs ''host'' \<and>
          optional is_object kvs ''metadata''
      | _ \<Rightarrow> False)"

section \<open>The event that \<^verbatim>\<open>record\<close> creates (client.ts)\<close>




section \<open>Inputs of the examples\<close>

definition chunk_text :: GenerateContentResponse where
  "chunk_text = \<lparr>candidates = Some [\<lparr>finishReason = None\<rparr>], usageMetadata = None\<rparr>"

definition chunk_final :: GenerateContentResponse where
  "chunk_final = \<lparr>candidates = Some [\<lparr>finishReason = Some ''STOP''\<rparr>],
     usageMetadata = Some \<lparr>promptTokenCount = 12, candidatesTokenCount = 34, totalTokenCount = 46\<rparr>\<rparr>"

definition bedrock_parse :: "string \<Rightarrow> json option" where
  "bedrock_parse =
     [''delta'' \<mapsto> JObj [(''type'', JStr ''content_block_delta'')],
      ''stop'' \<mapsto> JObj [(''type'', JStr ''message_stop''),
         (''amazon-bedrock-invocationMetrics'',
            JObj [(''inputTokenCount'', JNum 9), (''outputTokenCount'', JNum 21)])]]"

text \<open>An Azure virtual machine outside Kubernetes, and a machine that no metadata service answers.\<close>

definition azure_vm :: host where
  "azure_vm = \<lparr>os_hostname = ''vm-7'', existsSync = (\<lambda>path. False), readFileSync = (\<lambda>path. None),
     process_env = Map.empty, fetch = [azure_request \<mapsto> ''0f3a'']\<rparr>"

definition bare_metal :: host where
  "bare_metal = \<lparr>os_hostname = ''rack-3'', existsSync = (\<lambda>path. False),
     readFileSync = (\<lambda>path. None), process_env = Map.empty, fetch = Map.empty\<rparr>"



text \<open>An event recorded on the Azure virtual machine.\<close>

definition example_event :: UsageEvent where
  "example_event =
     \<lparr>event_tenantId = ''acme'', event_provider = Bedrock,
      event_model = ''anthropic.claude-3'', event_promptTokens = 9, event_completionTokens = 21,
      event_timestamp = \<lparr>utc_year = 2024, utc_month = 2, utc_day = 5, utc_hours = 7,
        utc_minutes = 8, utc_seconds = 9, utc_milliseconds = 10\<rparr>,
      event_latencyMs = Some 250,
      event_host = Some \<lparr>hostname = ''vm-7'', cloudProvider = Azure, instanceId = Some ''0f3a'',
        k8s = None\<rparr>,
      event_metadata = None\<rparr>"




section \<open>Configuration: what the constructor accepts\<close>

lemma resolved_url_nonempty: "resolved_url options e \<noteq> []"
  by (simp add: resolved_url_def or_else_def split: option.splits)

lemma or_else_default_nonempty: "d \<noteq> [] \<Longrightarrow> or_else a d \<noteq> []"
  by (simp add: or_else_def split: option.splits)

lemma strip_trailing_slash_empty: "s \<noteq> [] \<Longrightarrow> strip_trailing_slash s = [] \<longleftrightarrow> s = ''/''"
  by (cases s rule: rev_cases) (auto simp: strip_trailing_slash_def)

text \<open>
  The second test of the constructor can never fire, and the first fires for one resolved
  URL only: the constructor as a two-way case.
\<close>

lemma config_new_cases:
  "TokenTrackrConfig_new options e =
     (if resolved_url options e = ''/'' then Inl ''backendUrl is required''
      else Inr \<lparr>
        backendUrl = strip_trailing_slash (resolved_url options e),
        apiKey = js_or (opt_apiKey options) (e ''TOKEN_TRACKR_API_KEY''),
        tenantId = or_else (js_or (opt_tenantId options) (e ''TOKEN_TRACKR_TENANT_ID'')) ''default'',
        batchSize = nullish (opt_batchSize options) 10,
        flushInterval = nullish (opt_flushInterval options) 5,
        maxQueueSize = nullish (opt_maxQueueSize options) 1000,
        retryAttempts = nullish (opt_retryAttempts options) 3,
        timeout = nullish (opt_timeout options) 30000,
        asyncMode = nullish (opt_asyncMode options) True\<rparr>)"
  by (simp add: TokenTrackrConfig_new_def Let_def strip_trailing_slash_empty
      resolved_url_nonempty or_else_default_nonempty)

lemma resolved_url_missing:
  "\<not> truthy_str (opt_backendUrl options) \<Longrightarrow> \<not> truthy_str (e ''TOKEN_TRACKR_URL'') \<Longrightarrow>
     resolved_url options e = ''http://localhost:8000''"
  by (auto simp: resolved_url_def or_else_def js_or_def truthy_str_def split: option.splits)

text \<open>
  Claim C3, as amended. The claim says that construction fails when the backend URL or the
  tenant id is missing. The constructor fills a missing (or empty) backend URL from
  \<^verbatim>\<open>TOKEN_TRACKR_URL\<close> and then from \<^verbatim>\<open>"http://localhost:8000"\<close>, and a missing tenant id from
  \<^verbatim>\<open>TOKEN_TRACKR_TENANT_ID\<close> and then from \<^verbatim>\<open>"default"\<close>. Construction fails exactly when the
  resolved backend URL is the single slash, which the removal of the trailing slash
  empties; it never fails for the tenant id. With both missing in the options and in the
  environment it succeeds with the two defaults. A failure is \<open>Inl\<close>: no configuration
  object exists then.
\<close>

theorem config_fails_only_on_slash_url:
  "((\<exists>msg. TokenTrackrConfig_new options e = Inl msg) \<longleftrightarrow> resolved_url options e = ''/'') \<and>
   TokenTrackrConfig_new options e \<noteq> Inl ''tenantId is required'' \<and>
   (\<not> truthy_str (opt_backendUrl options) \<and> \<not> truthy_str (e ''TOKEN_TRACKR_URL'') \<longrightarrow>
      (\<exists>c. TokenTrackrConfig_new options e = Inr c \<and> backendUrl c = ''http://localhost:8000'')) \<and>
   (\<forall>c. TokenTrackrConfig_new options e = Inr c \<and> \<not> truthy_str (opt_tenantId options) \<and>
        \<not> truthy_str (e ''TOKEN_TRACKR_TENANT_ID'') \<longrightarrow> tenantId c = ''default'')"
proof (intro conjI)
  show "(\<exists>msg. TokenTrackrConfig_new options e = Inl msg) \<longleftrightarrow> resolved_url options e = ''/''"
    by (simp add: config_new_cases)
  show "TokenTrackrConfig_new options e \<noteq> Inl ''tenantId is required''"
    by (simp add: config_new_cases)
  show "\<not> truthy_str (opt_backendUrl options) \<and> \<not> truthy_str (e ''TOKEN_TRACKR_URL'') \<longrightarrow>
      (\<exists>c. TokenTrackrConfig_new options e = Inr c \<and> backendUrl c = ''http://localhost:8000'')"
    by (auto simp: config_new_cases resolved_url_missing strip_trailing_slash_def)
  show "\<forall>c. TokenTrackrConfig_new options e = Inr c \<and> \<not> truthy_str (opt_tenantId options) \<and>
        \<not> truthy_str (e ''TOKEN_TRACKR_TENANT_ID'') \<longrightarrow> tenantId c = ''default''"
    by (auto simp: config_new_cases or_else_def js_or_def truthy_str_def
        split: if_splits option.splits)
qed

text \<open>The theorem at the default options, and at a backend URL that is a single slash.\<close>

theorem config_fails_only_on_slash_url_witness:
  "(\<exists>c. TokenTrackrConfig_new no_options Map.empty = Inr c \<and> backendUrl c = ''http://localhost:8000'') \<and>
   (\<exists>msg. TokenTrackrConfig_new (no_options\<lparr>opt_backendUrl := Some ''/''\<rparr>) Map.empty = Inl msg)"
  using config_fails_only_on_slash_url [of no_options Map.empty]
    config_fails_only_on_slash_url [of "no_options\<lparr>opt_backendUrl := Some ''/''\<rparr>" Map.empty]
  by (simp add: no_options_def truthy_str_def resolved_url_def or_else_def js_or_def)

text \<open>
  The claim as stated fails: with no backend URL and no tenant id, in the options or in
  the environment, the constructor returns a configuration.
\<close>

theorem missing_url_and_tenant_accepted:
  "TokenTrackrConfig_new no_options Map.empty =
     Inr \<lparr>backendUrl = ''http://localhost:8000'', apiKey = None, tenantId = ''default'',
       batchSize = 10, flushInterval = 5, maxQueueSize = 1000, retryAttempts = 3,
       timeout = 30000, asyncMode = True\<rparr>"
  by (simp add: TokenTrackrConfig_new_def no_options_def resolved_url_def or_else_def js_or_def
      truthy_str_def nullish_def strip_trailing_slash_def)

text \<open>
  Claim C4, as amended. The claim says that a maximum queue size of zero is rejected. The
  constructor does not look at \<^verbatim>\<open>maxQueueSize\<close>: whether construction fails does not depend
  on it, and options with a maximum queue size of zero give a configuration with that
  capacity whenever the backend URL resolves to something other than the single slash.
\<close>

theorem maxQueueSize_not_validated:
  "((\<exists>msg. TokenTrackrConfig_new (options\<lparr>opt_maxQueueSize := q\<rparr>) e = Inl msg) \<longleftrightarrow>
      (\<exists>msg. TokenTrackrConfig_new options e = Inl msg)) \<and>
   (opt_maxQueueSize options = Some 0 \<and> resolved_url options e \<noteq> ''/'' \<longrightarrow>
      (\<exists>c. TokenTrackrConfig_new options e = Inr c \<and> maxQueueSize c = 0))"
  by (simp add: config_new_cases resolved_url_def nullish_def)

theorem maxQueueSize_not_validated_witness:
  "\<exists>c. TokenTrackrConfig_new (no_options\<lparr>opt_maxQueueSize := Some 0\<rparr>) Map.empty = Inr c \<and>
      maxQueueSize c = 0"
  using maxQueueSize_not_validated
    [where options = "no_options\<lparr>opt_maxQueueSize := Some 0\<rparr>" and e = Map.empty]
  by (simp add: no_options_def truthy_str_def resolved_url_def or_else_def js_or_def)

text \<open>The claim as stated fails: a capacity of zero is accepted.\<close>

theorem zero_capacity_accepted:
  "TokenTrackrConfig_new (no_options\<lparr>opt_maxQueueSize := Some 0\<rparr>) Map.empty =
     Inr \<lparr>backendUrl = ''http://localhost:8000'', apiKey = None, tenantId = ''default'',
       batchSize = 10, flushInterval = 5, maxQueueSize = 0, retryAttempts = 3,
       timeout = 30000, asyncMode = True\<rparr>"
  by (simp add: TokenTrackrConfig_new_def no_options_def resolved_url_def or_else_def js_or_def
      truthy_str_def nullish_def strip_trailing_slash_def)

text \<open>
  Claim C8, as amended. The claim says that every option can be overridden through an
  environment variable. The constructor reads three variables: an option that is not
  supplied (or is empty) takes the value of \<^verbatim>\<open>TOKEN_TRACKR_URL\<close> (less one trailing slash),
  \<^verbatim>\<open>TOKEN_TRACKR_API_KEY\<close> or \<^verbatim>\<open>TOKEN_TRACKR_TENANT_ID\<close>. The batch size, the flush interval,
  the maximum queue size, the retry attempts, the timeout and the async-mode flag are the
  option or a fixed default, whatever the environment holds.
\<close>

theorem environment_overrides_three_options:
  "TokenTrackrConfig_new options e = Inr c \<Longrightarrow>
     (\<not> truthy_str (opt_backendUrl options) \<and> truthy_str (e ''TOKEN_TRACKR_URL'') \<longrightarrow>
        Some (backendUrl c) = map_option strip_trailing_slash (e ''TOKEN_TRACKR_URL'')) \<and>
     (\<not> truthy_str (opt_apiKey options) \<longrightarrow> apiKey c = e ''TOKEN_TRACKR_API_KEY'') \<and>
     (\<not> truthy_str (opt_tenantId options) \<and> truthy_str (e ''TOKEN_TRACKR_TENANT_ID'') \<longrightarrow>
        Some (tenantId c) = e ''TOKEN_TRACKR_TENANT_ID'') \<and>
     batchSize c = nullish (opt_batchSize options) 10 \<and>
     flushInterval c = nullish (opt_flushInterval options) 5 \<and>
     maxQueueSize c = nullish (opt_maxQueueSize options) 1000 \<and>
     retryAttempts c = nullish (opt_retryAttempts options) 3 \<and>
     timeout c = nullish (opt_timeout options) 30000 \<and>
     asyncMode c = nullish (opt_asyncMode options) True"
proof -
  assume ok: "TokenTrackrConfig_new options e = Inr c"
  then have u: "resolved_url options e \<noteq> ''/''"
    by (simp add: config_new_cases split: if_splits)
  from ok have c: "c = \<lparr>
        backendUrl = strip_trailing_slash (resolved_url options e),
        apiKey = js_or (opt_apiKey options) (e ''TOKEN_TRACKR_API_KEY''),
        tenantId = or_else (js_or (opt_tenantId options) (e ''TOKEN_TRACKR_TENANT_ID'')) ''default'',
        batchSize = nullish (opt_batchSize options) 10,
        flushInterval = nullish (opt_flushInterval options) 5,
        maxQueueSize = nullish (opt_maxQueueSize options) 1000,
        retryAttempts = nullish (opt_retryAttempts options) 3,
        timeout = nullish (opt_timeout options) 30000,
        asyncMode = nullish (opt_asyncMode options) True\<rparr>"
    unfolding config_new_cases using u by simp
  have b: "\<not> truthy_str (opt_backendUrl options) \<and> truthy_str (e ''TOKEN_TRACKR_URL'') \<longrightarrow>
        Some (backendUrl c) = map_option strip_trailing_slash (e ''TOKEN_TRACKR_URL'')"
    unfolding c
    by (auto simp: resolved_url_def or_else_def js_or_def truthy_str_def split: option.splits)
  have k: "\<not> truthy_str (opt_apiKey options) \<longrightarrow> apiKey c = e ''TOKEN_TRACKR_API_KEY''"
    unfolding c by (simp add: js_or_def)
  have t: "\<not> truthy_str (opt_tenantId options) \<and> truthy_str (e ''TOKEN_TRACKR_TENANT_ID'') \<longrightarrow>
        Some (tenantId c) = e ''TOKEN_TRACKR_TENANT_ID''"
    unfolding c by (auto simp: or_else_def js_or_def truthy_str_def split: option.splits)
  show ?thesis
    using b k t unfolding c by simp
qed

text \<open>
  An environment that sets the three variables, and a variable for the batch size that
  nothing reads.
\<close>

theorem environment_overrides_three_options_witness:
  "\<exists>c. TokenTrackrConfig_new no_options
      [''TOKEN_TRACKR_URL'' \<mapsto> ''http://collector:9000/'', ''TOKEN_TRACKR_API_KEY'' \<mapsto> ''k'',
        ''TOKEN_TRACKR_TENANT_ID'' \<mapsto> ''acme'', ''TOKEN_TRACKR_BATCH_SIZE'' \<mapsto> ''50''] = Inr c \<and>
      backendUrl c = ''http://collector:9000'' \<and> apiKey c = Some ''k'' \<and> tenantId c = ''acme'' \<and>
      batchSize c = 10"
proof -
  let ?e = "[''TOKEN_TRACKR_URL'' \<mapsto> ''http://collector:9000/'', ''TOKEN_TRACKR_API_KEY'' \<mapsto> ''k'',
        ''TOKEN_TRACKR_TENANT_ID'' \<mapsto> ''acme'', ''TOKEN_TRACKR_BATCH_SIZE'' \<mapsto> ''50'']"
  have r: "resolved_url no_options ?e = ''http://collector:9000/''"
    by (simp add: resolved_url_def no_options_def js_or_def or_else_def truthy_str_def)
  then obtain c where c: "TokenTrackrConfig_new no_options ?e = Inr c"
    by (simp add: config_new_cases)
  from environment_overrides_three_options [OF c]
  have "backendUrl c = ''http://collector:9000'' \<and> apiKey c = Some ''k'' \<and> tenantId c = ''acme'' \<and>
      batchSize c = 10"
    by (simp add: no_options_def truthy_str_def nullish_def strip_trailing_slash_def)
  with c show ?thesis by blast
qed

text \<open>
  The claim as stated fails for the batch size: no environment at all changes it when the
  option is not supplied.
\<close>

theorem batch_size_ignores_environment:
  "\<not> (\<exists>e c. TokenTrackrConfig_new no_options e = Inr c \<and> batchSize c \<noteq> 10)"
  by (auto simp: config_new_cases no_options_def nullish_def split: if_splits)

section \<open>Streaming: one record, after the last chunk, with the last reported counts\<close>


lemma for_await_trace:
  "for_await update after s chunks = map Yield chunks @ after (fold update chunks s)"
  by (induction chunks arbitrary: s) simp_all

lemma last_usage_Nil: "last_usage carried [] = None"
  by (simp add: last_usage_def)

lemma last_usage_snoc:
  "last_usage carried (chunks @ [x]) =
     (case carried x of None \<Rightarrow> last_usage carried chunks | Some u \<Rightarrow> Some u)"
  by (simp add: last_usage_def split: option.splits)

lemma fold_last_usage:
  assumes "\<And>x s. update x s = (case carried x of None \<Rightarrow> s | Some u \<Rightarrow> f u)"
  shows "fold update chunks s = (case last_usage carried chunks of None \<Rightarrow> s | Some u \<Rightarrow> f u)"
proof (induction chunks rule: rev_induct)
  case Nil
  show ?case by (simp add: last_usage_Nil)
next
  case (snoc x xs)
  have "fold update (xs @ [x]) s = update x (fold update xs s)"
    by simp
  also have "\<dots> = (case carried x of None \<Rightarrow> fold update xs s | Some u \<Rightarrow> f u)"
    by (rule assms)
  also have "\<dots> = (case last_usage carried (xs @ [x]) of None \<Rightarrow> s | Some u \<Rightarrow> f u)"
    by (simp add: snoc last_usage_snoc split: option.splits)
  finally show ?case .
qed

lemma num_or0_id: "num_or0 n = n"
  by (simp add: num_or0_def)

lemma bedrock_loop_trace:
  "parsed_chunks P events = Some cs \<Longrightarrow>
     bedrock_loop P after s events = map Yield cs @ after (fold bedrock_update cs s)"
proof (induction events arbitrary: s cs)
  case Nil
  then show ?case by simp
next
  case (Cons ev rest)
  show ?case
  proof (cases ev)
    case None
    with Cons show ?thesis by simp
  next
    case (Some bytes)
    with Cons.prems obtain chunkData cs' where
      p: "P bytes = Some chunkData" "chunkData \<noteq> JNull"
        "parsed_chunks P rest = Some cs'" "cs = chunkData # cs'"
      by (auto split: option.splits if_splits)
    show ?thesis
      using Some p Cons.IH [OF p(3)] by simp
  qed
qed

lemma bedrock_loop_throws:
  "parsed_chunks P events = None \<Longrightarrow> records_of (bedrock_loop P after s events) = []"
proof (induction events arbitrary: s)
  case Nil
  then show ?case by simp
next
  case (Cons ev rest)
  show ?case
  proof (cases ev)
    case None
    with Cons show ?thesis by simp
  next
    case (Some bytes)
    with Cons show ?thesis
      by (auto split: option.splits if_splits)
  qed
qed

lemma records_of_yields: "records_of (map Yield cs @ t) = records_of t"
  by (induction cs) simp_all


lemma gemini_update_carried:
  "gemini_update x s =
     (case usageMetadata x of None \<Rightarrow> s | Some u \<Rightarrow> (promptTokenCount u, candidatesTokenCount u))"
  by (simp add: gemini_update_def num_or0_id split: option.splits)

lemma azure_update_carried:
  "azure_update x s =
     (case event_usage x of None \<Rightarrow> s | Some u \<Rightarrow> (stream_promptTokens u, stream_completionTokens u))"
  by (simp add: azure_update_def num_or0_id split: option.splits)

lemma bedrock_update_carried:
  "bedrock_update x s =
     (case message_stop_metrics x of None \<Rightarrow> s
      | Some metrics \<Rightarrow>
          (or0 (property metrics ''inputTokenCount''), or0 (property metrics ''outputTokenCount'')))"
  by (simp add: bedrock_update_def)

lemma or0_number: "or0 (Some (JNum n)) = JNum n"
  by (simp add: or0_def)

lemma generateContentStream_trace:
  "generateContentStream m (Some (chunks, True)) ms =
     map Yield chunks @
       [Record \<lparr>provider = Gemini, model = m,
          promptTokens = fst (fold gemini_update chunks (0, 0)),
          completionTokens = snd (fold gemini_update chunks (0, 0)),
          latencyMs = ms, metadata = None\<rparr>]"
  by (simp add: generateContentStream_def for_await_trace record_or_throw_def split_beta)

lemma sendMessageStream_trace:
  "sendMessageStream m (Some (chunks, True)) ms =
     map Yield chunks @
       [Record \<lparr>provider = Gemini, model = m,
          promptTokens = fst (fold gemini_update chunks (0, 0)),
          completionTokens = snd (fold gemini_update chunks (0, 0)),
          latencyMs = ms, metadata = None\<rparr>]"
  by (simp add: sendMessageStream_def for_await_trace record_or_throw_def split_beta)

lemma streamChatCompletions_trace:
  "streamChatCompletions d (Some (events, True)) ms =
     map Yield events @
       [Record \<lparr>provider = AzureOpenAI, model = d,
          promptTokens = fst (fold azure_update events (0, 0)),
          completionTokens = snd (fold azure_update events (0, 0)),
          latencyMs = ms, metadata = None\<rparr>]"
  by (simp add: streamChatCompletions_def for_await_trace record_or_throw_def split_beta)

lemma invokeModelWithResponseStream_trace:
  "parsed_chunks P bs = Some cs \<Longrightarrow>
   invokeModelWithResponseStream mid (Some (bs, True)) P ms =
     map Yield cs @
       [Record \<lparr>provider = Bedrock, model = mid,
          promptTokens = fst (fold bedrock_update cs (JNum 0, JNum 0)),
          completionTokens = snd (fold bedrock_update cs (JNum 0, JNum 0)),
          latencyMs = ms, metadata = None\<rparr>]"
  by (simp add: invokeModelWithResponseStream_def bedrock_loop_trace record_or_throw_def split_beta)

text \<open>
  Claim C6. A streaming call whose provider stream completes yields every chunk, in order,
  and then makes one call of \<^verbatim>\<open>client.record\<close>: the trace is the chunks followed by a single
  record, so the record is not made before the last chunk has been yielded and is made once.
  For Bedrock the chunks are the events that carry bytes, each of which parses to a value
  other than \<^verbatim>\<open>null\<close> (a chunk that does not ends the generator with an exception before the
  stream is exhausted).
\<close>

theorem stream_records_once_after_last_chunk:
  "(\<exists>a. generateContentStream m (Some (chunks, True)) ms = map Yield chunks @ [Record a]) \<and>
   (\<exists>a. sendMessageStream m (Some (chunks, True)) ms = map Yield chunks @ [Record a]) \<and>
   (\<exists>a. streamChatCompletions d (Some (events, True)) ms = map Yield events @ [Record a]) \<and>
   (parsed_chunks P bs = Some cs \<longrightarrow>
      (\<exists>a. invokeModelWithResponseStream mid (Some (bs, True)) P ms = map Yield cs @ [Record a]))"
  by (simp add: generateContentStream_trace sendMessageStream_trace streamChatCompletions_trace
      invokeModelWithResponseStream_trace)

theorem stream_records_once_after_last_chunk_witness:
  "invokeModelWithResponseStream ''anthropic.claude-3'' (Some ([Some ''delta'', None, Some ''stop''], True))
      bedrock_parse 250 =
     [Yield (JObj [(''type'', JStr ''content_block_delta'')]),
      Yield (JObj [(''type'', JStr ''message_stop''),
         (''amazon-bedrock-invocationMetrics'',
            JObj [(''inputTokenCount'', JNum 9), (''outputTokenCount'', JNum 21)])]),
      Record \<lparr>provider = Bedrock, model = ''anthropic.claude-3'', promptTokens = JNum 9,
        completionTokens = JNum 21, latencyMs = 250, metadata = None\<rparr>]"
proof -
  let ?cs = "[JObj [(''type'', JStr ''content_block_delta'')],
      JObj [(''type'', JStr ''message_stop''),
         (''amazon-bedrock-invocationMetrics'',
            JObj [(''inputTokenCount'', JNum 9), (''outputTokenCount'', JNum 21)])]]"
  have p: "parsed_chunks bedrock_parse [Some ''delta'', None, Some ''stop''] = Some ?cs"
    by (simp add: bedrock_parse_def)
  from stream_records_once_after_last_chunk
    [where P = bedrock_parse and bs = "[Some ''delta'', None, Some ''stop'']" and cs = ?cs
      and mid = "''anthropic.claude-3''" and ms = 250] p
  obtain a where a: "invokeModelWithResponseStream ''anthropic.claude-3''
      (Some ([Some ''delta'', None, Some ''stop''], True)) bedrock_parse 250 = map Yield ?cs @ [Record a]"
    by blast
  have "a = \<lparr>provider = Bedrock, model = ''anthropic.claude-3'', promptTokens = JNum 9,
        completionTokens = JNum 21, latencyMs = 250, metadata = None\<rparr>"
    using a
    by (simp add: invokeModelWithResponseStream_def bedrock_parse_def record_or_throw_def
        bedrock_update_def message_stop_metrics_def or0_def)
  with a show ?thesis by simp
qed

text \<open>
  Claim C10. The counts recorded at the end of a stream that is consumed to completion are
  those of the last chunk that carried usage metadata, and both are zero when no chunk
  carried any. For Bedrock the usage metadata of a chunk are the invocation metrics of a
  \<^verbatim>\<open>message_stop\<close> chunk, and the counts they report are the numbers under
  \<^verbatim>\<open>inputTokenCount\<close> and \<^verbatim>\<open>outputTokenCount\<close>.
\<close>

theorem stream_records_last_reported_counts:
  "map token_counts (records_of (generateContentStream m (Some (chunks, True)) ms)) =
     [case last_usage usageMetadata chunks of
        None \<Rightarrow> (0, 0)
      | Some u \<Rightarrow> (promptTokenCount u, candidatesTokenCount u)] \<and>
   map token_counts (records_of (sendMessageStream m (Some (chunks, True)) ms)) =
     [case last_usage usageMetadata chunks of
        None \<Rightarrow> (0, 0)
      | Some u \<Rightarrow> (promptTokenCount u, candidatesTokenCount u)] \<and>
   map token_counts (records_of (streamChatCompletions d (Some (events, True)) ms)) =
     [case last_usage event_usage events of
        None \<Rightarrow> (0, 0)
      | Some u \<Rightarrow> (stream_promptTokens u, stream_completionTokens u)] \<and>
   (parsed_chunks P bs = Some cs \<longrightarrow>
      (last_usage message_stop_metrics cs = None \<longrightarrow>
         map token_counts (records_of (invokeModelWithResponseStream mid (Some (bs, True)) P ms)) =
           [(JNum 0, JNum 0)]) \<and>
      (\<forall>metrics i j. last_usage message_stop_metrics cs = Some metrics \<and>
         property metrics ''inputTokenCount'' = Some (JNum i) \<and>
         property metrics ''outputTokenCount'' = Some (JNum j) \<longrightarrow>
         map token_counts (records_of (invokeModelWithResponseStream mid (Some (bs, True)) P ms)) =
           [(JNum i, JNum j)]))"
proof (intro conjI impI allI)
  have g: "fold gemini_update chunks (0, 0) =
      (case last_usage usageMetadata chunks of None \<Rightarrow> (0, 0)
       | Some u \<Rightarrow> (promptTokenCount u, candidatesTokenCount u))"
    by (rule fold_last_usage) (rule gemini_update_carried)
  show "map token_counts (records_of (generateContentStream m (Some (chunks, True)) ms)) =
     [case last_usage usageMetadata chunks of
        None \<Rightarrow> (0, 0)
      | Some u \<Rightarrow> (promptTokenCount u, candidatesTokenCount u)]"
    by (simp add: generateContentStream_trace records_of_yields token_counts_def flip: g)
  show "map token_counts (records_of (sendMessageStream m (Some (chunks, True)) ms)) =
     [case last_usage usageMetadata chunks of
        None \<Rightarrow> (0, 0)
      | Some u \<Rightarrow> (promptTokenCount u, candidatesTokenCount u)]"
    by (simp add: sendMessageStream_trace records_of_yields token_counts_def flip: g)
  have z: "fold azure_update events (0, 0) =
      (case last_usage event_usage events of None \<Rightarrow> (0, 0)
       | Some u \<Rightarrow> (stream_promptTokens u, stream_completionTokens u))"
    by (rule fold_last_usage) (rule azure_update_carried)
  show "map token_counts (records_of (streamChatCompletions d (Some (events, True)) ms)) =
     [case last_usage event_usage events of
        None \<Rightarrow> (0, 0)
      | Some u \<Rightarrow> (stream_promptTokens u, stream_completionTokens u)]"
    by (simp add: streamChatCompletions_trace records_of_yields token_counts_def flip: z)
next
  have b: "fold bedrock_update cs (JNum 0, JNum 0) =
      (case last_usage message_stop_metrics cs of None \<Rightarrow> (JNum 0, JNum 0)
       | Some metrics \<Rightarrow>
          (or0 (property metrics ''inputTokenCount''), or0 (property metrics ''outputTokenCount'')))"
    by (rule fold_last_usage) (rule bedrock_update_carried)
  {
    assume p: "parsed_chunks P bs = Some cs" and n: "last_usage message_stop_metrics cs = None"
    show "map token_counts (records_of (invokeModelWithResponseStream mid (Some (bs, True)) P ms)) =
           [(JNum 0, JNum 0)]"
      by (simp add: invokeModelWithResponseStream_trace [OF p] records_of_yields token_counts_def b n)
  }
  {
    fix metrics i j
    assume p: "parsed_chunks P bs = Some cs"
      and u: "last_usage message_stop_metrics cs = Some metrics \<and>
         property metrics ''inputTokenCount'' = Some (JNum i) \<and>
         property metrics ''outputTokenCount'' = Some (JNum j)"
    show "map token_counts (records_of (invokeModelWithResponseStream mid (Some (bs, True)) P ms)) =
           [(JNum i, JNum j)]"
      by (simp add: invokeModelWithResponseStream_trace [OF p] records_of_yields token_counts_def b u
          or0_number)
  }
qed

theorem stream_records_last_reported_counts_witness:
  "map token_counts (records_of (generateContentStream ''gemini-1.5-pro''
      (Some ([chunk_final, chunk_text], True)) 250)) = [(12, 34)] \<and>
   map token_counts (records_of (invokeModelWithResponseStream ''anthropic.claude-3''
      (Some ([Some ''delta'', None, Some ''stop''], True)) bedrock_parse 250)) = [(JNum 9, JNum 21)]"
proof -
  let ?cs = "[JObj [(''type'', JStr ''content_block_delta'')],
      JObj [(''type'', JStr ''message_stop''),
         (''amazon-bedrock-invocationMetrics'',
            JObj [(''inputTokenCount'', JNum 9), (''outputTokenCount'', JNum 21)])]]"
  let ?metrics = "JObj [(''inputTokenCount'', JNum 9), (''outputTokenCount'', JNum 21)]"
  have p: "parsed_chunks bedrock_parse [Some ''delta'', None, Some ''stop''] = Some ?cs"
    by (simp add: bedrock_parse_def)
  have l: "last_usage message_stop_metrics ?cs = Some ?metrics"
    by (simp add: last_usage_def message_stop_metrics_def)
  have g: "last_usage usageMetadata [chunk_final, chunk_text] =
      Some \<lparr>promptTokenCount = 12, candidatesTokenCount = 34, totalTokenCount = 46\<rparr>"
    by (simp add: last_usage_def chunk_final_def chunk_text_def)
  from stream_records_last_reported_counts
    [where m = "''gemini-1.5-pro''" and chunks = "[chunk_final, chunk_text]" and ms = 250
      and P = bedrock_parse and bs = "[Some ''delta'', None, Some ''stop'']" and cs = ?cs
      and mid = "''anthropic.claude-3''"]
  show ?thesis
    using p l g by simp
qed


section \<open>Recorded counts are the reported counts\<close>






















section \<open>The bounded queue and the retry loop\<close>


lemma enqueue_bounded:
  "queue_size q \<le> capacity q \<Longrightarrow>
     queue_size (fst (enqueue event q)) \<le> capacity (fst (enqueue event q)) \<and>
     capacity (fst (enqueue event q)) = capacity q"
  by (auto simp: enqueue_def queue_size_def)

lemma drain_bounded:
  "queue_size q \<le> capacity q \<Longrightarrow>
     queue_size (snd (drain n q)) \<le> capacity (snd (drain n q)) \<and>
     capacity (snd (drain n q)) = capacity q"
  by (auto simp: drain_def queue_size_def)

lemma run_ops_bounded:
  "queue_size q \<le> capacity q \<Longrightarrow>
     queue_size (fst (run_ops ops q)) \<le> capacity q \<and> capacity (fst (run_ops ops q)) = capacity q"
proof (induction ops arbitrary: q)
  case Nil
  then show ?case by simp
next
  case (Cons op ops)
  show ?case
  proof (cases op)
    case (Enqueue event)
    from enqueue_bounded [OF Cons.prems, of event]
    have "queue_size (fst (enqueue event q)) \<le> capacity (fst (enqueue event q))"
      and c: "capacity (fst (enqueue event q)) = capacity q" by simp_all
    from Cons.IH [OF this(1)] c show ?thesis
      by (simp add: Enqueue split_beta)
  next
    case (Drain n)
    from drain_bounded [OF Cons.prems, of n]
    have "queue_size (snd (drain n q)) \<le> capacity (snd (drain n q))"
      and c: "capacity (snd (drain n q)) = capacity q" by simp_all
    from Cons.IH [OF this(1)] c show ?thesis
      by (simp add: Drain)
  qed
qed

text \<open>
  Claim C1. After any sequence of enqueue and drain operations on a new queue, the length of
  the queue is at most its capacity. An enqueue against a full queue leaves the events as
  they are and reports the drop; it returns like any other enqueue, so the caller is not
  blocked and nothing fails. An enqueue with room appends the event and reports it, and
  whatever operations follow keep the length within the capacity.
\<close>

theorem queue_never_exceeds_capacity:
  "queue_size (fst (run_ops ops (new_queue cap))) \<le> cap \<and>
   (let q = fst (run_ops ops (new_queue cap)) in
      (queue_size q = cap \<longrightarrow>
         enqueue event q = (q\<lparr>drops := drops q + 1\<rparr>, DroppedOverflow)) \<and>
      (queue_size q < cap \<longrightarrow>
         enqueue event q = (q\<lparr>items := items q @ [event]\<rparr>, Enqueued)) \<and>
      queue_size (fst (enqueue event q)) \<le> cap \<and>
      queue_size (fst (run_ops later (fst (enqueue event q)))) \<le> cap)"
proof -
  let ?q = "fst (run_ops ops (new_queue cap))"
  have "queue_size (new_queue cap :: 'a BoundedQueue) \<le> capacity (new_queue cap :: 'a BoundedQueue)"
    by (simp add: new_queue_def queue_size_def)
  from run_ops_bounded [OF this, of ops]
  have q: "queue_size ?q \<le> cap" and c: "capacity ?q = cap"
    by (simp_all add: new_queue_def)
  then have b: "queue_size ?q \<le> capacity ?q" by simp
  from enqueue_bounded [OF b, of event]
  have e: "queue_size (fst (enqueue event ?q)) \<le> capacity (fst (enqueue event ?q))"
    and ec: "capacity (fst (enqueue event ?q)) = cap" using c by simp_all
  from run_ops_bounded [OF e, of later]
  have r: "queue_size (fst (run_ops later (fst (enqueue event ?q)))) \<le> cap"
    using ec by simp
  have full: "queue_size ?q = cap \<longrightarrow>
         enqueue event ?q = (?q\<lparr>drops := drops ?q + 1\<rparr>, DroppedOverflow)"
    using c by (simp add: enqueue_def)
  have room: "queue_size ?q < cap \<longrightarrow>
         enqueue event ?q = (?q\<lparr>items := items ?q @ [event]\<rparr>, Enqueued)"
    using c by (simp add: enqueue_def)
  show ?thesis
    unfolding Let_def using q full room e ec r by simp
qed

theorem queue_never_exceeds_capacity_witness:
  "run_ops [Enqueue (1::nat), Enqueue 2, Enqueue 3, Drain 1, Enqueue 4] (new_queue 2) =
     (\<lparr>items = [2, 4], capacity = 2, drops = 1\<rparr>, [Enqueued, Enqueued, DroppedOverflow, Enqueued]) \<and>
   queue_size (fst (run_ops [Enqueue (1::nat), Enqueue 2, Enqueue 3, Drain 1, Enqueue 4] (new_queue 2))) \<le> 2"
  using queue_never_exceeds_capacity
    [where ops = "[Enqueue (1::nat), Enqueue 2, Enqueue 3, Drain 1, Enqueue 4]" and cap = 2
       and event = 5 and later = "[]"]
  by (simp add: new_queue_def enqueue_def drain_def queue_size_def Let_def)

lemma transient_failureD: "transient_failure a \<Longrightarrow> \<exists>f. a = Failed f \<and> transient f"
  by (cases a) (simp_all add: transient_failure_def)

lemma retry_loop_all_transient:
  "(\<And>k. transient_failure (transport k)) \<Longrightarrow>
     attempted (retry_loop transport ceiling delay made n) = [Suc made ..< Suc (made + n)] \<and>
     result (retry_loop transport ceiling delay made n) = DroppedExhausted \<and>
     reported (retry_loop transport ceiling delay made n) = [TerminalFailure (made + n)]"
proof (induction n arbitrary: made delay)
  case 0
  show ?case by simp
next
  case (Suc n)
  from transient_failureD [OF Suc.prems [of "Suc made"]]
  obtain f where f: "transport (Suc made) = Failed f" "transient f"
    by blast
  from Suc.IH [OF Suc.prems, of "min ceiling (2 * delay)" "Suc made"] f
  show ?case
    by (simp add: Let_def upt_conv_Cons)
qed

text \<open>
  Claim C2. With a retry attempt count of 3 and a transport whose every attempt fails with a
  transient error, the delivery cycle makes the attempts 1, 2 and 3 and no other, waits
  between them with a doubling delay, drops the batch, and reports one terminal failure.
  The failure is in the \<open>reported\<close> field of the value the cycle returns.
\<close>

theorem three_transient_failures_three_attempts:
  "(\<forall>k. transient_failure (transport k)) \<Longrightarrow>
     deliver transport 3 baseDelay ceiling =
       \<lparr>attempted = [1, 2, 3],
        waits = [min ceiling baseDelay, min ceiling (2 * min ceiling baseDelay)],
        result = DroppedExhausted,
        reported = [TerminalFailure 3]\<rparr>"
proof -
  assume a: "\<forall>k. transient_failure (transport k)"
  from a have "transient_failure (transport (Suc 0))" ..
  from transient_failureD [OF this]
  obtain f1 where f1: "transport (Suc 0) = Failed f1" "transient f1"
    by blast
  from a have "transient_failure (transport (Suc (Suc 0)))" ..
  from transient_failureD [OF this]
  obtain f2 where f2: "transport (Suc (Suc 0)) = Failed f2" "transient f2"
    by blast
  from a have "transient_failure (transport (Suc (Suc (Suc 0))))" ..
  from transient_failureD [OF this]
  obtain f3 where f3: "transport (Suc (Suc (Suc 0))) = Failed f3" "transient f3"
    by blast
  show ?thesis
    by (simp add: deliver_def numeral_3_eq_3 f1 f2 f3 Let_def)
qed

theorem three_transient_failures_three_attempts_witness:
  "deliver (\<lambda>k. Failed Timeout) 3 1000 30000 =
     \<lparr>attempted = [1, 2, 3], waits = [1000, 2000], result = DroppedExhausted,
      reported = [TerminalFailure 3]\<rparr>"
  using three_transient_failures_three_attempts [of "\<lambda>k. Failed Timeout" 1000 30000]
  by (simp add: transient_failure_def transient_def)


section \<open>Host metadata: the first probe that answers\<close>


lemma probe_of_requests:
  "probe_of aws_token_request = Aws"
  "probe_of (aws_instance_request token) = Aws"
  "probe_of azure_request = Azure"
  "probe_of gcp_request = Gcp"
  by (simp_all add: probe_of_def aws_token_request_def aws_instance_request_def azure_request_def
      gcp_request_def)

lemma detectAWS_probes: "probes_attempted (snd (detectAWS h)) = [Aws]"
  by (simp add: detectAWS_def probes_attempted_def probe_of_requests split: option.splits)

lemma detectAzure_log: "snd (detectAzure h) = [azure_request]"
  by (simp add: detectAzure_def split: option.splits)

lemma detectGCP_log: "snd (detectGCP h) = [gcp_request]"
  by (simp add: detectGCP_def split: option.splits)

lemma probes_attempted_append_aws:
  "probes_attempted (snd (detectAWS h) @ rest) = remdups_adj (Aws # map probe_of rest)"
  by (simp add: detectAWS_def probes_attempted_def probe_of_requests split: option.splits)

lemma getHostMetadata_cases:
  "getHostMetadata h =
     (let md = \<lparr>hostname = os_hostname h, cloudProvider = Unknown, instanceId = None,
                k8s = getK8sMetadata h\<rparr>
      in if fst (fst (detectAWS h))
         then (md\<lparr>cloudProvider := Aws, instanceId := snd (fst (detectAWS h))\<rparr>, snd (detectAWS h))
         else if fst (fst (detectAzure h))
         then (md\<lparr>cloudProvider := Azure, instanceId := snd (fst (detectAzure h))\<rparr>,
               snd (detectAWS h) @ snd (detectAzure h))
         else if fst (fst (detectGCP h))
         then (md\<lparr>cloudProvider := Gcp, instanceId := snd (fst (detectGCP h))\<rparr>,
               snd (detectAWS h) @ snd (detectAzure h) @ snd (detectGCP h))
         else (md\<lparr>cloudProvider := OnPrem\<rparr>,
               snd (detectAWS h) @ snd (detectAzure h) @ snd (detectGCP h)))"
  by (simp add: getHostMetadata_def Let_def split_beta)

text \<open>
  Claim C9. The cloud provider of every result of \<^verbatim>\<open>getHostMetadata\<close> is one of aws, azure,
  gcp and on-prem, never unknown. The probes go to AWS, then Azure, then GCP; the first
  probe that succeeds gives the provider and the instance id and no later probe is made;
  when the three fail the provider is on-prem and there is no instance id.
\<close>

theorem getHostMetadata_first_probe_wins:
  "cloudProvider (fst (getHostMetadata h)) \<in> {Aws, Azure, Gcp, OnPrem} \<and>
   (fst (fst (detectAWS h)) \<longrightarrow>
      cloudProvider (fst (getHostMetadata h)) = Aws \<and>
      instanceId (fst (getHostMetadata h)) = snd (fst (detectAWS h)) \<and>
      probes_attempted (snd (getHostMetadata h)) = [Aws]) \<and>
   (\<not> fst (fst (detectAWS h)) \<and> fst (fst (detectAzure h)) \<longrightarrow>
      cloudProvider (fst (getHostMetadata h)) = Azure \<and>
      instanceId (fst (getHostMetadata h)) = snd (fst (detectAzure h)) \<and>
      probes_attempted (snd (getHostMetadata h)) = [Aws, Azure]) \<and>
   (\<not> fst (fst (detectAWS h)) \<and> \<not> fst (fst (detectAzure h)) \<and> fst (fst (detectGCP h)) \<longrightarrow>
      cloudProvider (fst (getHostMetadata h)) = Gcp \<and>
      instanceId (fst (getHostMetadata h)) = snd (fst (detectGCP h)) \<and>
      probes_attempted (snd (getHostMetadata h)) = [Aws, Azure, Gcp]) \<and>
   (\<not> fst (fst (detectAWS h)) \<and> \<not> fst (fst (detectAzure h)) \<and> \<not> fst (fst (detectGCP h)) \<longrightarrow>
      cloudProvider (fst (getHostMetadata h)) = OnPrem \<and>
      instanceId (fst (getHostMetadata h)) = None \<and>
      probes_attempted (snd (getHostMetadata h)) = [Aws, Azure, Gcp])"
proof (intro conjI impI)
  show "cloudProvider (fst (getHostMetadata h)) \<in> {Aws, Azure, Gcp, OnPrem}"
    by (simp add: getHostMetadata_cases Let_def)
next
  assume "fst (fst (detectAWS h))"
  then show "cloudProvider (fst (getHostMetadata h)) = Aws"
    "instanceId (fst (getHostMetadata h)) = snd (fst (detectAWS h))"
    "probes_attempted (snd (getHostMetadata h)) = [Aws]"
    by (simp_all add: getHostMetadata_cases Let_def detectAWS_probes)
next
  assume "\<not> fst (fst (detectAWS h)) \<and> fst (fst (detectAzure h))"
  then show "cloudProvider (fst (getHostMetadata h)) = Azure"
    "instanceId (fst (getHostMetadata h)) = snd (fst (detectAzure h))"
    "probes_attempted (snd (getHostMetadata h)) = [Aws, Azure]"
    by (simp_all add: getHostMetadata_cases Let_def probes_attempted_append_aws detectAzure_log
        probe_of_requests)
next
  assume "\<not> fst (fst (detectAWS h)) \<and> \<not> fst (fst (detectAzure h)) \<and> fst (fst (detectGCP h))"
  then show "cloudProvider (fst (getHostMetadata h)) = Gcp"
    "instanceId (fst (getHostMetadata h)) = snd (fst (detectGCP h))"
    "probes_attempted (snd (getHostMetadata h)) = [Aws, Azure, Gcp]"
    by (simp_all add: getHostMetadata_cases Let_def probes_attempted_append_aws detectAzure_log
        detectGCP_log probe_of_requests)
next
  assume "\<not> fst (fst (detectAWS h)) \<and> \<not> fst (fst (detectAzure h)) \<and> \<not> fst (fst (detectGCP h))"
  then show "cloudProvider (fst (getHostMetadata h)) = OnPrem"
    "instanceId (fst (getHostMetadata h)) = None"
    "probes_attempted (snd (getHostMetadata h)) = [Aws, Azure, Gcp]"
    by (simp_all add: getHostMetadata_cases Let_def probes_attempted_append_aws detectAzure_log
        detectGCP_log probe_of_requests)
qed

theorem getHostMetadata_first_probe_wins_witness:
  "getHostMetadata azure_vm =
     (\<lparr>hostname = ''vm-7'', cloudProvider = Azure, instanceId = Some ''0f3a'', k8s = None\<rparr>,
      [aws_token_request, azure_request]) \<and>
   cloudProvider (fst (getHostMetadata bare_metal)) = OnPrem"
proof -
  have a: "detectAWS azure_vm = ((False, None), [aws_token_request])"
    by (simp add: detectAWS_def azure_vm_def aws_token_request_def azure_request_def)
  have z: "detectAzure azure_vm = ((True, Some ''0f3a''), [azure_request])"
    by (simp add: detectAzure_def azure_vm_def)
  have k: "getK8sMetadata azure_vm = None"
    by (simp add: getK8sMetadata_def isRunningInKubernetes_def azure_vm_def)
  have b: "\<not> fst (fst (detectAWS bare_metal))" "\<not> fst (fst (detectAzure bare_metal))"
    "\<not> fst (fst (detectGCP bare_metal))"
    by (simp_all add: detectAWS_def detectAzure_def detectGCP_def bare_metal_def)
  from getHostMetadata_first_probe_wins [of azure_vm] a z
  have "cloudProvider (fst (getHostMetadata azure_vm)) = Azure" by simp
  moreover have "getHostMetadata azure_vm =
     (\<lparr>hostname = ''vm-7'', cloudProvider = Azure, instanceId = Some ''0f3a'', k8s = None\<rparr>,
      [aws_token_request, azure_request])"
    by (simp add: getHostMetadata_def a z k) (simp add: azure_vm_def)
  moreover from getHostMetadata_first_probe_wins [of bare_metal] b
  have "cloudProvider (fst (getHostMetadata bare_metal)) = OnPrem" by simp
  ultimately show ?thesis by simp
qed


section \<open>The wire payload\<close>


lemma is_digit_digit: "n < 10 \<Longrightarrow> is_digit (digit n)"
  unfolding is_digit_def digit_def by (rule nth_mem) simp

lemma pad2_digits: "n < 100 \<Longrightarrow> list_all2 matches ''99'' (pad2 n)"
  by (simp add: pad2_def matches_def is_digit_digit)

lemma pad3_digits: "n < 1000 \<Longrightarrow> list_all2 matches ''999'' (pad3 n)"
  using pad2_digits [of "n mod 100"] by (simp add: pad3_def matches_def is_digit_digit)

lemma pad4_digits: "n < 10000 \<Longrightarrow> list_all2 matches ''9999'' (pad4 n)"
  using pad3_digits [of "n mod 1000"] by (simp add: pad4_def matches_def is_digit_digit)

lemma matches_literal: "c \<noteq> CHR ''9'' \<Longrightarrow> list_all2 matches [c] [c]"
  by (simp add: matches_def)

lemma toISOString_iso8601: "valid_date d \<Longrightarrow> is_iso8601 (toISOString d)"
proof -
  assume v: "valid_date d"
  have "list_all2 matches (''9999'' @ ''-'' @ ''99'' @ ''-'' @ ''99'' @ ''T'' @ ''99'' @ '':'' @ ''99'' @ '':''
      @ ''99'' @ ''.'' @ ''999'' @ ''Z'') (toISOString d)"
    unfolding toISOString_def using v
    by (intro list_all2_appendI pad4_digits pad3_digits pad2_digits matches_literal)
      (simp_all add: valid_date_def)
  then show ?thesis by (simp add: is_iso8601_def)
qed

lemma k8s_shape_encode: "k8s_shape (encode_k8s k)"
  by (cases "payload_pod k"; cases "payload_namespace k"; cases "payload_node k")
    (simp_all add: k8s_shape_def encode_k8s_def optional_field_def keys_among_def optional_def
      is_string_def)

lemma host_shape_encode: "host_shape (encode_host h)"
  by (cases "instance_id h"; cases "payload_k8s h")
    (simp_all add: host_shape_def encode_host_def optional_field_def keys_among_def optional_def
      required_def is_string_def k8s_shape_encode)

lemma wire_shape_encode: "is_iso8601 (timestamp p) \<Longrightarrow> wire_shape (encode_payload p)"
  by (cases "latency_ms p"; cases "payload_host p"; cases "payload_metadata p")
    (simp_all add: wire_shape_def encode_payload_def optional_field_def keys_among_def optional_def
      required_def is_string_def is_integer_def is_object_def is_iso8601_string_def
      host_shape_encode)


text \<open>
  Claim C7. Every serialized payload is an object with the keys \<^verbatim>\<open>tenant_id\<close>, \<^verbatim>\<open>provider\<close>
  and \<^verbatim>\<open>model\<close> (strings), \<^verbatim>\<open>prompt_tokens\<close> and \<^verbatim>\<open>completion_tokens\<close> (integers) and
  \<^verbatim>\<open>timestamp\<close> (an ISO-8601 string), and no other key but the optional \<^verbatim>\<open>latency_ms\<close>,
  \<^verbatim>\<open>host\<close> (with \<^verbatim>\<open>hostname\<close>, \<^verbatim>\<open>cloud_provider\<close>, optionally \<^verbatim>\<open>instance_id\<close> and the
  Kubernetes pod, namespace and node) and \<^verbatim>\<open>metadata\<close>. This holds for every value of the
  payload type whose timestamp is in ISO-8601, and for the payload of every event.
\<close>

theorem payload_has_wire_fields:
  "(is_iso8601 (timestamp p) \<longrightarrow> wire_shape (encode_payload p)) \<and>
   (valid_date (event_timestamp e) \<longrightarrow> wire_shape (encode_payload (toPayload e)))"
proof (intro conjI impI)
  assume "is_iso8601 (timestamp p)"
  then show "wire_shape (encode_payload p)" by (rule wire_shape_encode)
next
  assume "valid_date (event_timestamp e)"
  then have "is_iso8601 (timestamp (toPayload e))"
    by (simp add: toPayload_def toISOString_iso8601)
  then show "wire_shape (encode_payload (toPayload e))" by (rule wire_shape_encode)
qed

theorem payload_has_wire_fields_witness:
  "encode_payload (toPayload example_event) =
     JObj [(''tenant_id'', JStr ''acme''), (''provider'', JStr ''bedrock''),
       (''model'', JStr ''anthropic.claude-3''), (''prompt_tokens'', JNum 9),
       (''completion_tokens'', JNum 21), (''timestamp'', JStr ''2024-03-05T07:08:09.010Z''),
       (''latency_ms'', JNum 250),
       (''host'', JObj [(''hostname'', JStr ''vm-7''), (''cloud_provider'', JStr ''azure''),
          (''instance_id'', JStr ''0f3a'')])] \<and>
   wire_shape (encode_payload (toPayload example_event))"
proof -
  have v: "valid_date (event_timestamp example_event)"
    by (simp add: example_event_def valid_date_def)
  have "toISOString (event_timestamp example_event) = ''2024-03-05T07:08:09.010Z''"
    by (simp add: example_event_def toISOString_def pad4_def pad3_def pad2_def digit_def)
  then have "encode_payload (toPayload example_event) =
     JObj [(''tenant_id'', JStr ''acme''), (''provider'', JStr ''bedrock''),
       (''model'', JStr ''anthropic.claude-3''), (''prompt_tokens'', JNum 9),
       (''completion_tokens'', JNum 21), (''timestamp'', JStr ''2024-03-05T07:08:09.010Z''),
       (''latency_ms'', JNum 250),
       (''host'', JObj [(''hostname'', JStr ''vm-7''), (''cloud_provider'', JStr ''azure''),
          (''instance_id'', JStr ''0f3a'')])]"
    by (simp add: example_event_def encode_payload_def toPayload_def optional_field_def
        encode_host_def host_payload_def)
  moreover from payload_has_wire_fields [where e = example_event] v
  have "wire_shape (encode_payload (toPayload example_event))" by simp
  ultimately show ?thesis by simp
qed


end
